theory Spec2Isabelle
  imports Main
begin

section \<open>JavaScript string and array primitives used by the store\<close>

text \<open>
  Strings are character lists; the characters of a \<^typ>\<open>string\<close> are the code units
  0 to 255. The white space set is the part of JavaScript's \<open>WhiteSpace\<close> and
  \<open>LineTerminator\<close> classes that lies in this range. Numbers that the store uses as
  indices are integers (\<^typ>\<open>int\<close>), negative ones included.
\<close>

definition isWhiteSpace :: "char \<Rightarrow> bool" where
  "isWhiteSpace c =
     (c \<in> set [CHR 0x09, CHR 0x0A, CHR 0x0B, CHR 0x0C, CHR 0x0D, CHR 0x20, CHR 0xA0])"

text \<open>\<open>String.prototype.trim\<close>: white space is removed from both ends.\<close>

definition trim :: "string \<Rightarrow> string" where
  "trim s = rev (dropWhile isWhiteSpace (rev (dropWhile isWhiteSpace s)))"

text \<open>
  \<open>String.prototype.toUpperCase\<close>. The upper-case form of a character can lie beyond
  code unit 255 (the micro sign and \<open>y\<close> with diaeresis) or be two characters long (the
  sharp s gives \<open>SS\<close>), so the result is a list of UTF-16 code units: \<open>upperUnits\<close> gives
  the code units of the upper-case form of one character. The letters \<open>a\<close> to \<open>z\<close> and
  the Latin-1 letters 224 to 254, but for the division sign 247, move down by 32.
  \<open>codeUnits\<close> reads a string as code units, so that \<open>s === s.toUpperCase()\<close> is
  \<open>codeUnits s = toUpperCase s\<close>.
\<close>

definition upperUnits :: "char \<Rightarrow> nat list" where
  "upperUnits c =
     (let n = (of_char c :: nat)
      in if (97 \<le> n \<and> n \<le> 122) \<or> (224 \<le> n \<and> n \<le> 254 \<and> n \<noteq> 247) then [n - 32]
         else if n = 181 then [924]
         else if n = 223 then [83, 83]
         else if n = 255 then [376]
         else [n])"

definition toUpperCase :: "string \<Rightarrow> nat list" where
  "toUpperCase s = concat (map upperUnits s)"

definition codeUnits :: "string \<Rightarrow> nat list" where
  "codeUnits s = map of_char s"

text \<open>
  \<open>Canonicalize\<close> of a regular expression with the \<open>i\<close> flag and without the \<open>u\<close>
  flag: the upper-case form of the character when that is a single code unit, except that
  a character from 128 on never maps into ASCII. Two characters match when their canonical
  forms are equal.
\<close>

definition canonicalize :: "char \<Rightarrow> nat" where
  "canonicalize c =
     (case upperUnits c of
        [cu] \<Rightarrow> if 128 \<le> (of_char c :: nat) \<and> cu < 128 then of_char c else cu
      | _ \<Rightarrow> of_char c)"

text \<open>\<open>s.split(sep)\<close> for a one-character separator: never empty, \<open>''''\<close> gives \<open>['''']\<close>.\<close>

fun splitOn :: "char \<Rightarrow> string \<Rightarrow> string list" where
  "splitOn sep [] = [[]]"
| "splitOn sep (c # cs) =
     (if c = sep then [] # splitOn sep cs
      else (case splitOn sep cs of
              w # ws \<Rightarrow> (c # w) # ws
            | [] \<Rightarrow> [[c]]))"

text \<open>\<open>xs.join(sep)\<close>.\<close>

fun join :: "string \<Rightarrow> string list \<Rightarrow> string" where
  "join sep [] = []"
| "join sep [x] = x"
| "join sep (x # y # ys) = x @ sep @ join sep (y # ys)"

text \<open>
  \<open>xs.slice(start, end)\<close> on integers: a negative bound counts from the end, and both
  bounds are clamped to the array. \<open>xs.slice(start)\<close> runs to the end of the array.
\<close>

definition js_slice :: "int \<Rightarrow> int \<Rightarrow> 'a list \<Rightarrow> 'a list" where
  "js_slice start end xs =
     (let len = int (length xs);
          k = (if start < 0 then max (len + start) 0 else min start len);
          final = (if end < 0 then max (len + end) 0 else min end len)
      in take (nat (final - k)) (drop (nat k) xs))"

definition js_slice_from :: "int \<Rightarrow> 'a list \<Rightarrow> 'a list" where
  "js_slice_from start xs = js_slice start (int (length xs)) xs"

text \<open>\<open>xs.findIndex(p)\<close>: the first index whose element satisfies \<open>p\<close>, or \<open>-1\<close>.\<close>

fun findIndex :: "('a \<Rightarrow> bool) \<Rightarrow> 'a list \<Rightarrow> int" where
  "findIndex p [] = - 1"
| "findIndex p (x # xs) =
     (if p x then 0
      else (let r = findIndex p xs in if r = - 1 then - 1 else r + 1))"

section \<open>The data model of the script store\<close>

datatype LineType = Dialogue | Action | Heading | Character | Parenthetical

record ScriptLine =
  type :: LineType
  content :: string
  original_text :: string

record Scene =
  name :: string
  lineIndex :: int

datatype FileFormat = Pdf | Fdx

record Selection =
  sel_text :: string
  sel_startIndex :: int
  sel_endIndex :: int

text \<open>
  An edit history entry. The identifier is the string built from \<open>Date.now()\<close> and
  \<open>Math.random()\<close>, and the time stamp is \<open>new Date()\<close>; both come from the environment
  and are arguments of the model.
\<close>

record EditHistoryEntry =
  id' :: string
  timestamp :: int
  startIndex :: int
  endIndex :: int
  originalLines :: "ScriptLine list"
  newLines :: "ScriptLine list"
  originalText :: string
  newText :: string
  prompt :: string

text \<open>
  The state of the store. The element type of \<open>lines\<close> is a parameter: every operation but
  \<open>updateLine\<close> maps a state whose lines are \<open>ScriptLine\<close>s to such a state.
\<close>

record 'l ScriptState =
  lines :: "'l list"
  characters :: "string list"
  scenes :: "Scene list"
  fileFormat :: "FileFormat option"
  selection :: "Selection option"
  editHistory :: "EditHistoryEntry list"
  isLoading :: bool
  error :: "string option"

type_synonym State = "ScriptLine ScriptState"

definition initialState :: State where
  "initialState =
     \<lparr>lines = [], characters = [], scenes = [], fileFormat = None, selection = None,
      editHistory = [], isLoading = False, error = None\<rparr>"

section \<open>The line classifier\<close>

text \<open>A literal of a regular expression with the \<open>i\<close> flag, anchored at the start.\<close>

definition startsWithCI :: "string \<Rightarrow> string \<Rightarrow> bool" where
  "startsWithCI pat s =
     (length pat \<le> length s \<and> map canonicalize (take (length pat) s) = map canonicalize pat)"

definition sceneHeadingRe :: "string \<Rightarrow> bool" where
  "sceneHeadingRe s =
     list_ex (\<lambda>pat. startsWithCI pat s)
       [''INT.'', ''EXT.'', ''INT/EXT.'', ''I/E.'', ''INT./EXT.'', ''EXT./INT.'']"

text \<open>The class \<open>\w\<close> of a regular expression: letters, digits and the underscore.\<close>

definition isWordChar :: "char \<Rightarrow> bool" where
  "isWordChar c =
     (let n = (of_char c :: nat)
      in (48 \<le> n \<and> n \<le> 57) \<or> (65 \<le> n \<and> n \<le> 90) \<or> n = 95 \<or> (97 \<le> n \<and> n \<le> 122))"

text \<open>\<open>(says|turns|moves|walks|looks|stares|enters|exits)\s\<close> at the start of a string.\<close>

definition verbThenSpace :: "string \<Rightarrow> bool" where
  "verbThenSpace r =
     list_ex (\<lambda>v. startsWithCI v r \<and> length v < length r \<and> isWhiteSpace (r ! length v))
       [''says'', ''turns'', ''moves'', ''walks'', ''looks'', ''stares'', ''enters'', ''exits'']"

text \<open>
  \<open>[\w\s]+\s+\<close> followed by the verb group, at the start of a string: some prefix of
  \<open>k \<ge> 2\<close> characters, all of them word characters or white space and the last one white
  space, is followed by a verb and a white space character.
\<close>

definition subjectVerb :: "string \<Rightarrow> bool" where
  "subjectVerb s =
     list_ex (\<lambda>k. list_all (\<lambda>c. isWordChar c \<or> isWhiteSpace c) (take k s)
                 \<and> isWhiteSpace (s ! (k - 1)) \<and> verbThenSpace (drop k s))
       [2 ..< Suc (length s)]"

definition actionIndicatorRe :: "string \<Rightarrow> bool" where
  "actionIndicatorRe s =
     (list_ex (\<lambda>pat. startsWithCI pat s)
        [''REVEAL'', ''CUT TO'', ''ON:'', ''DISSOLVE TO'', ''FADE'', ''PAN TO'']
      \<or> subjectVerb s)"

definition detectType :: "string \<Rightarrow> LineType option \<Rightarrow> LineType" where
  "detectType cont prevType =
     (let trimmed = trim cont in
      if sceneHeadingRe trimmed \<and> codeUnits trimmed = toUpperCase trimmed then Heading
      else if (trimmed \<noteq> [] \<and> hd trimmed = CHR ''('') \<and> (trimmed \<noteq> [] \<and> last trimmed = CHR '')'')
        then Parenthetical
      else if codeUnits trimmed = toUpperCase trimmed \<and> length trimmed \<le> 45 \<and> CHR ''.'' \<notin> set trimmed
        then Character
      else if prevType = Some Character \<or> prevType = Some Parenthetical then Dialogue
      else if prevType = Some Dialogue
        then (if actionIndicatorRe trimmed then Action else Dialogue)
      else Action)"

text \<open>\<open>newContent.split('\n').filter(l => l.trim())\<close>: the segments that are not blank.\<close>

definition contentLines :: "string \<Rightarrow> string list" where
  "contentLines newContent = filter (\<lambda>l. trim l \<noteq> []) (splitOn (CHR 0x0A) newContent)"

text \<open>
  The \<open>map\<close> over the segments with the rolling variable \<open>prevType\<close>: each segment is typed
  with the type given to the segment before it.
\<close>

fun classifyFrom :: "LineType option \<Rightarrow> string list \<Rightarrow> ScriptLine list" where
  "classifyFrom prevType [] = []"
| "classifyFrom prevType (c # rest) =
     (let ty = detectType c prevType
      in \<lparr>type = ty, content = trim c, original_text = c\<rparr> # classifyFrom (Some ty) rest)"

text \<open>The classifier as \<open>replaceLines\<close> runs it: \<open>prevType\<close> starts as \<open>null\<close>.\<close>

definition newLineObjects :: "string \<Rightarrow> ScriptLine list" where
  "newLineObjects newContent = classifyFrom None (contentLines newContent)"

section \<open>The operations of the store\<close>

definition setScript ::
  "ScriptLine list \<Rightarrow> string list \<Rightarrow> Scene list \<Rightarrow> FileFormat option \<Rightarrow> State \<Rightarrow> State" where
  "setScript ls cs scs ff s =
     s\<lparr>lines := ls, characters := cs, scenes := scs, fileFormat := ff,
       editHistory := [], error := None\<rparr>"

definition clearScript :: "State \<Rightarrow> State" where
  "clearScript s =
     s\<lparr>lines := [], characters := [], scenes := [], fileFormat := None, selection := None,
       editHistory := [], error := None\<rparr>"

definition setSelection :: "string \<Rightarrow> int \<Rightarrow> int \<Rightarrow> State \<Rightarrow> State" where
  "setSelection t i j s =
     s\<lparr>selection := Some \<lparr>sel_text = t, sel_startIndex = i, sel_endIndex = j\<rparr>\<rparr>"

definition clearSelection :: "State \<Rightarrow> State" where
  "clearSelection s = s\<lparr>selection := None\<rparr>"

definition clearHistory :: "State \<Rightarrow> State" where
  "clearHistory s = s\<lparr>editHistory := []\<rparr>"

definition setLoading :: "bool \<Rightarrow> State \<Rightarrow> State" where
  "setLoading b s = s\<lparr>isLoading := b\<rparr>"

definition setError :: "string option \<Rightarrow> State \<Rightarrow> State" where
  "setError e s = s\<lparr>error := e\<rparr>"

text \<open>
  \<open>updateLine\<close> copies the array and assigns to \<open>newLines[index]\<close> the old element with its
  \<open>content\<close> replaced. Inside the array that is an update in place. At an index from the
  length on (below the largest array index) JavaScript extends the array: the slots in
  between are holes and the new element is the spread of \<open>undefined\<close> with a \<open>content\<close>, an
  object with that field alone. At any other index the assignment sets a property of the
  array object and no element changes. The result need not be an array of script lines, so
  its elements are slots.
\<close>

datatype slot = Line ScriptLine | ContentOnly string | Hole

definition updateLine :: "int \<Rightarrow> string \<Rightarrow> State \<Rightarrow> slot ScriptState" where
  "updateLine index newContent s =
     (let newLines = map Line (lines s);
          n = int (length newLines)
      in \<lparr>lines =
             (if 0 \<le> index \<and> index < n
                then newLines[nat index := Line ((lines s ! nat index)\<lparr>content := newContent\<rparr>)]
              else if n \<le> index \<and> index < 4294967295
                then newLines @ replicate (nat (index - n)) Hole @ [ContentOnly newContent]
              else newLines),
          characters = characters s, scenes = scenes s, fileFormat = fileFormat s,
          selection = selection s, editHistory = editHistory s, isLoading = isLoading s,
          error = error s\<rparr>)"

text \<open>
  The history entry that \<open>replaceLines\<close> builds. An omitted \<open>prompt\<close> argument
  (\<open>None\<close>) takes the default label.
\<close>

definition editEntry ::
  "string \<Rightarrow> int \<Rightarrow> int \<Rightarrow> int \<Rightarrow> string \<Rightarrow> string option \<Rightarrow> State \<Rightarrow> EditHistoryEntry" where
  "editEntry newId now startIdx endIdx newContent promptArg s =
     (let origLines = js_slice startIdx (endIdx + 1) (lines s)
      in \<lparr>id' = newId, timestamp = now, startIndex = startIdx, endIndex = endIdx,
          originalLines = origLines,
          newLines = newLineObjects newContent,
          originalText = join [CHR 0x0A] (map content origLines),
          newText = newContent,
          prompt = (case promptArg of None \<Rightarrow> ''Manual edit'' | Some p \<Rightarrow> p)\<rparr>)"

definition replaceLines ::
  "string \<Rightarrow> int \<Rightarrow> int \<Rightarrow> int \<Rightarrow> string \<Rightarrow> string option \<Rightarrow> State \<Rightarrow> State" where
  "replaceLines newId now startIdx endIdx newContent promptArg s =
     s\<lparr>lines := js_slice 0 startIdx (lines s) @ newLineObjects newContent
                  @ js_slice_from (endIdx + 1) (lines s),
       editHistory :=
         js_slice 0 50 (editEntry newId now startIdx endIdx newContent promptArg s # editHistory s)\<rparr>"

definition undoEdit :: "string \<Rightarrow> State \<Rightarrow> State" where
  "undoEdit editId s =
     (let editIndex = findIndex (\<lambda>e. id' e = editId) (editHistory s)
      in if editIndex = - 1 then s
         else (let edit = editHistory s ! nat editIndex
               in s\<lparr>lines := js_slice 0 (startIndex edit) (lines s) @ originalLines edit
                              @ js_slice_from (startIndex edit + int (length (newLines edit))) (lines s),
                     editHistory := filter (\<lambda>e. id' e \<noteq> editId) (editHistory s)\<rparr>))"

section \<open>Sequences of replacements and an example document\<close>

text \<open>
  One call of \<open>replaceLines\<close> with its arguments and the identifier and time stamp that
  the environment gives it; a list of calls is applied from left to right, and
  \<open>createdEntries\<close> collects the history entry that each call builds, in the order of
  the calls.
\<close>

record ReplaceCall =
  call_id :: string
  call_now :: int
  call_start :: int
  call_end :: int
  call_text :: string
  call_prompt :: "string option"

definition applyCall :: "ReplaceCall \<Rightarrow> State \<Rightarrow> State" where
  "applyCall c s =
     replaceLines (call_id c) (call_now c) (call_start c) (call_end c) (call_text c)
       (call_prompt c) s"

definition entryOfCall :: "ReplaceCall \<Rightarrow> State \<Rightarrow> EditHistoryEntry" where
  "entryOfCall c s =
     editEntry (call_id c) (call_now c) (call_start c) (call_end c) (call_text c)
       (call_prompt c) s"

fun replaceAll :: "ReplaceCall list \<Rightarrow> State \<Rightarrow> State" where
  "replaceAll [] s = s"
| "replaceAll (c # cs) s = replaceAll cs (applyCall c s)"

fun createdEntries :: "ReplaceCall list \<Rightarrow> State \<Rightarrow> EditHistoryEntry list" where
  "createdEntries [] s = []"
| "createdEntries (c # cs) s = entryOfCall c s # createdEntries cs (applyCall c s)"

text \<open>A four-line document whose line at index 2 is a dialogue line, and a replacement text.\<close>

definition exampleDoc :: State where
  "exampleDoc =
     initialState
       \<lparr>lines :=
          [\<lparr>type = Heading, content = ''INT. KITCHEN - DAY'', original_text = ''INT. KITCHEN - DAY''\<rparr>,
           \<lparr>type = Character, content = ''JOHN'', original_text = ''JOHN''\<rparr>,
           \<lparr>type = Dialogue, content = ''We need to leave now.'',
             original_text = ''  We need to leave now.''\<rparr>,
           \<lparr>type = Action, content = ''He grabs his coat.'', original_text = ''He grabs his coat.''\<rparr>]\<rparr>"

definition exampleText :: string where
  "exampleText = ''Fine. Let's go.'' @ [CHR 0x0A] @ ''CUT TO:'' @ [CHR 0x0A] @ ''EXT. STREET - NIGHT''"

text \<open>The example document after one replacement of its line 2.\<close>

definition editedDoc :: State where
  "editedDoc = replaceLines ''edit-1'' 7 2 2 exampleText None exampleDoc"

text \<open>A family of calls with pairwise distinct identifiers.\<close>

definition sampleCall :: "nat \<Rightarrow> ReplaceCall" where
  "sampleCall k =
     \<lparr>call_id = ''edit-'' @ replicate k (CHR ''x''), call_now = int k, call_start = 0, call_end = 0,
      call_text = ''JOHN'', call_prompt = None\<rparr>"

section \<open>Facts about the array primitives\<close>

lemma js_slice_prefix: "0 \<le> n \<Longrightarrow> js_slice 0 n xs = take (nat n) xs"
  by (simp add: js_slice_def Let_def min_def)

lemma js_slice_from_nonneg: "0 \<le> n \<Longrightarrow> js_slice_from n xs = drop (nat n) xs"
  by (simp add: js_slice_from_def js_slice_def Let_def min_def)

lemma js_slice_range:
  "0 \<le> a \<Longrightarrow> a \<le> b \<Longrightarrow> js_slice a b xs = take (nat (b - a)) (drop (nat a) xs)"
  by (auto simp add: js_slice_def Let_def min_def)

lemma findIndex_lower: "- 1 \<le> findIndex p xs"
  by (induction xs) (auto simp: Let_def)

lemma findIndex_absent: "(findIndex p xs = - 1) = (\<forall>x \<in> set xs. \<not> p x)"
proof (induction xs)
  case Nil
  show ?case by simp
next
  case (Cons x xs)
  have "- 1 \<le> findIndex p xs" by (rule findIndex_lower)
  with Cons show ?case by (auto simp: Let_def)
qed

lemma findIndex_find:
  "findIndex p xs \<noteq> - 1 \<Longrightarrow>
     0 \<le> findIndex p xs \<and> nat (findIndex p xs) < length xs
     \<and> find p xs = Some (xs ! nat (findIndex p xs))"
proof (induction xs)
  case Nil
  then show ?case by simp
next
  case (Cons x xs)
  show ?case
  proof (cases "p x")
    case True
    then show ?thesis by simp
  next
    case False
    with Cons.prems have ne: "findIndex p xs \<noteq> - 1" by (auto simp: Let_def split: if_splits)
    from Cons.IH [OF ne] False ne show ?thesis
      by (auto simp: Let_def nat_add_distrib)
  qed
qed

lemma find_None_absent: "(find p xs = None) = (\<forall>x \<in> set xs. \<not> p x)"
  by (induction xs) auto

lemma take_append_take: "take n (xs @ take n ys) = take n (xs @ ys)"
  by (simp add: min_def)

section \<open>Facts about the operations\<close>

lemma splice_id: "take a xs @ take b (drop a xs) @ drop (a + b) xs = xs"
proof -
  have "take b (drop a xs) @ drop b (drop a xs) = drop a xs" by (rule append_take_drop_id)
  then have "take b (drop a xs) @ drop (a + b) xs = drop a xs" by (simp add: add.commute)
  moreover have "take a xs @ drop a xs = xs" by (rule append_take_drop_id)
  ultimately show ?thesis by simp
qed

lemma replaceLines_history:
  "editHistory (replaceLines newId now startIdx endIdx newContent promptArg s) =
     take 50 (editEntry newId now startIdx endIdx newContent promptArg s # editHistory s)"
  by (simp add: replaceLines_def js_slice_prefix)

lemma replaceLines_lines_valid:
  assumes "0 \<le> startIdx" "startIdx \<le> endIdx" "endIdx < int (length (lines s))"
  shows "lines (replaceLines newId now startIdx endIdx newContent promptArg s) =
           take (nat startIdx) (lines s) @ newLineObjects newContent
             @ drop (nat endIdx + 1) (lines s)"
proof -
  from assms have "0 \<le> endIdx + 1" by simp
  then have "js_slice_from (endIdx + 1) (lines s) = drop (nat (endIdx + 1)) (lines s)"
    by (rule js_slice_from_nonneg)
  moreover from assms have "nat (endIdx + 1) = nat endIdx + 1" by simp
  ultimately show ?thesis using assms(1)
    by (simp add: replaceLines_def js_slice_prefix)
qed

lemma undoEdit_present:
  assumes "find (\<lambda>e. id' e = editId) (editHistory s) = Some entry"
  shows "undoEdit editId s =
           s\<lparr>lines := js_slice 0 (startIndex entry) (lines s) @ originalLines entry
                        @ js_slice_from (startIndex entry + int (length (newLines entry))) (lines s),
             editHistory := filter (\<lambda>e. id' e \<noteq> editId) (editHistory s)\<rparr>"
proof -
  from assms have "\<not> (\<forall>x \<in> set (editHistory s). \<not> id' x = editId)"
    by (simp flip: find_None_absent)
  then have ne: "findIndex (\<lambda>e. id' e = editId) (editHistory s) \<noteq> - 1"
    by (simp add: findIndex_absent)
  from findIndex_find [OF ne] assms
  have "editHistory s ! nat (findIndex (\<lambda>e. id' e = editId) (editHistory s)) = entry"
    by simp
  with ne show ?thesis by (simp add: undoEdit_def Let_def)
qed

lemma undoEdit_absent:
  assumes "\<forall>e \<in> set (editHistory s). id' e \<noteq> editId"
  shows "undoEdit editId s = s"
proof -
  from assms have "findIndex (\<lambda>e. id' e = editId) (editHistory s) = - 1"
    by (simp add: findIndex_absent)
  then show ?thesis by (simp add: undoEdit_def)
qed

lemma undo_after_replace:
  assumes "0 \<le> startIdx" "startIdx \<le> endIdx" "endIdx < int (length (lines s))"
  shows "lines (undoEdit newId (replaceLines newId now startIdx endIdx newContent promptArg s))
           = lines s"
proof -
  let ?e = "editEntry newId now startIdx endIdx newContent promptArg s"
  let ?s' = "replaceLines newId now startIdx endIdx newContent promptArg s"
  let ?new = "newLineObjects newContent"
  have hist: "editHistory ?s' = take 50 (?e # editHistory s)" by (rule replaceLines_history)
  have id_e: "id' ?e = newId" by (simp add: editEntry_def Let_def)
  have "find (\<lambda>e. id' e = newId) (editHistory ?s') = Some ?e"
    by (simp add: hist id_e)
  then have undo: "lines (undoEdit newId ?s') =
      js_slice 0 (startIndex ?e) (lines ?s') @ originalLines ?e
        @ js_slice_from (startIndex ?e + int (length (newLines ?e))) (lines ?s')"
    by (simp add: undoEdit_present)
  have start_e: "startIndex ?e = startIdx" and new_e: "newLines ?e = ?new"
    by (simp_all add: editEntry_def Let_def)
  have orig_e: "originalLines ?e = take (nat (endIdx + 1 - startIdx)) (drop (nat startIdx) (lines s))"
    using assms by (simp add: editEntry_def Let_def js_slice_range)
  have lines': "lines ?s' = take (nat startIdx) (lines s) @ ?new @ drop (nat endIdx + 1) (lines s)"
    using assms by (rule replaceLines_lines_valid)
  from assms have len: "nat startIdx \<le> length (lines s)" by simp
  have pre: "js_slice 0 startIdx (lines ?s') = take (nat startIdx) (lines s)"
    using assms(1) len by (simp add: js_slice_prefix lines')
  have "0 \<le> startIdx + int (length ?new)" using assms(1) by simp
  then have "js_slice_from (startIdx + int (length ?new)) (lines ?s')
               = drop (nat (startIdx + int (length ?new))) (lines ?s')"
    by (rule js_slice_from_nonneg)
  moreover have "nat (startIdx + int (length ?new)) = nat startIdx + length ?new"
    using assms(1) by (simp add: nat_add_distrib)
  ultimately have post: "js_slice_from (startIdx + int (length ?new)) (lines ?s')
               = drop (nat endIdx + 1) (lines s)"
    using len by (simp add: lines' min_def)
  have "nat endIdx + 1 = nat startIdx + nat (endIdx + 1 - startIdx)" using assms by simp
  then have "take (nat startIdx) (lines s)
          @ take (nat (endIdx + 1 - startIdx)) (drop (nat startIdx) (lines s))
          @ drop (nat endIdx + 1) (lines s) = lines s"
    by (simp only: splice_id)
  with undo pre post start_e new_e orig_e show ?thesis by simp
qed

lemma editedDoc_history:
  "editHistory editedDoc = [editEntry ''edit-1'' 7 2 2 exampleText None exampleDoc]"
  by (simp add: editedDoc_def replaceLines_history exampleDoc_def initialState_def)

lemma editEntry_fields:
  "id' (editEntry newId now startIdx endIdx newContent promptArg s) = newId"
  "startIndex (editEntry newId now startIdx endIdx newContent promptArg s) = startIdx"
  "endIndex (editEntry newId now startIdx endIdx newContent promptArg s) = endIdx"
  "newLines (editEntry newId now startIdx endIdx newContent promptArg s) = newLineObjects newContent"
  "originalLines (editEntry newId now startIdx endIdx newContent promptArg s)
     = js_slice startIdx (endIdx + 1) (lines s)"
  by (simp_all add: editEntry_def Let_def)

lemma length_classifyFrom: "length (classifyFrom prevType segs) = length segs"
  by (induction segs arbitrary: prevType) (simp_all add: Let_def)

lemma replaceAll_history:
  "length (editHistory s) \<le> 50 \<Longrightarrow>
     editHistory (replaceAll cs s) = take 50 (rev (createdEntries cs s) @ editHistory s)"
proof (induction cs arbitrary: s)
  case Nil
  then show ?case by simp
next
  case (Cons c cs)
  have h: "editHistory (applyCall c s) = take 50 (entryOfCall c s # editHistory s)"
    by (simp add: applyCall_def entryOfCall_def replaceLines_history)
  then have "length (editHistory (applyCall c s)) \<le> 50" by simp
  then have "editHistory (replaceAll (c # cs) s)
               = take 50 (rev (createdEntries cs (applyCall c s))
                            @ take 50 (entryOfCall c s # editHistory s))"
    by (simp add: Cons.IH h)
  also have "\<dots> = take 50 (rev (createdEntries cs (applyCall c s))
                            @ entryOfCall c s # editHistory s)"
    by (rule take_append_take)
  finally show ?case by simp
qed

lemma length_createdEntries: "length (createdEntries cs s) = length cs"
  by (induction cs arbitrary: s) simp_all

lemma undoEdit_history_length: "length (editHistory (undoEdit editId s)) \<le> length (editHistory s)"
  by (simp add: undoEdit_def Let_def)

section \<open>The examples, evaluated\<close>

lemma exampleText_lines:
  "newLineObjects exampleText =
     [\<lparr>type = Action, content = ''Fine. Let's go.'', original_text = ''Fine. Let's go.''\<rparr>,
      \<lparr>type = Character, content = ''CUT TO:'', original_text = ''CUT TO:''\<rparr>,
      \<lparr>type = Heading, content = ''EXT. STREET - NIGHT'', original_text = ''EXT. STREET - NIGHT''\<rparr>]"
  by code_simp

lemma exampleDoc_lines:
  "lines exampleDoc =
          [\<lparr>type = Heading, content = ''INT. KITCHEN - DAY'', original_text = ''INT. KITCHEN - DAY''\<rparr>,
           \<lparr>type = Character, content = ''JOHN'', original_text = ''JOHN''\<rparr>,
           \<lparr>type = Dialogue, content = ''We need to leave now.'',
             original_text = ''  We need to leave now.''\<rparr>,
           \<lparr>type = Action, content = ''He grabs his coat.'', original_text = ''He grabs his coat.''\<rparr>]"
  by (simp add: exampleDoc_def initialState_def)


lemma reply_segments: "contentLines ''We need to leave now.'' = [''We need to leave now.'']"
  by code_simp

lemma detectType_None:
  "detectType seg None \<noteq> Dialogue"
  "detectType seg None \<in> {Heading, Parenthetical, Character, Action}"
  by (simp_all add: detectType_def Let_def)

lemma content_update:
  "l\<lparr>content := txt\<rparr> = \<lparr>type = type l, content = txt, original_text = original_text l\<rparr>"
  by (cases l) simp

section \<open>Replace followed by undo\<close>

text \<open>
  Claim C1. For every state of the store and every range with
  \<open>0 \<le> start \<le> end < len(lines)\<close>, \<open>undoEdit\<close> called with the identifier of the
  entry that the immediately preceding \<open>replaceLines(start, end, text)\<close> created gives back
  the line sequence from before the replacement: the lines are equal, and so are their
  contents, line by line.
\<close>

theorem replace_undo_roundtrip:
  assumes "0 \<le> startIdx" "startIdx \<le> endIdx" "endIdx < int (length (lines s))"
  shows "lines (undoEdit newId (replaceLines newId now startIdx endIdx newContent promptArg s))
           = lines s
         \<and> map content
             (lines (undoEdit newId (replaceLines newId now startIdx endIdx newContent promptArg s)))
           = map content (lines s)"
  using undo_after_replace [OF assms] by simp

theorem replace_undo_roundtrip_witness:
  "(0::int) \<le> 1 \<and> (1::int) \<le> 2 \<and> 2 < int (length (lines exampleDoc))
   \<and> map content (lines (undoEdit ''edit-1'' (replaceLines ''edit-1'' 7 1 2 exampleText None exampleDoc)))
       = [''INT. KITCHEN - DAY'', ''JOHN'', ''We need to leave now.'', ''He grabs his coat.'']"
  using replace_undo_roundtrip [of 1 2 exampleDoc "''edit-1''" 7 exampleText None]
  by (simp add: exampleDoc_def initialState_def)

section \<open>The postcondition of undo\<close>

text \<open>
  Claim C2. If no history entry has the identifier, \<open>undoEdit\<close> leaves the whole state as
  it is. If one has (the first such entry is the one used), the new lines are
  \<open>lines[0..startIndex)\<close>, then the entry's \<open>originalLines\<close>, then
  \<open>lines[startIndex + newLines.length ..)\<close>, computed with \<open>slice\<close> from the recorded
  \<open>startIndex\<close> and the length of the recorded \<open>newLines\<close> whatever the current lines
  are; for a recorded \<open>startIndex\<close> that is not negative these slices are a plain prefix
  and suffix. The history loses every entry with that identifier, the found entry among
  them, and no other field of the state changes.
\<close>

theorem undoEdit_postcondition:
  "((\<forall>e \<in> set (editHistory s). id' e \<noteq> editId) \<longrightarrow> undoEdit editId s = s)
   \<and> (\<forall>entry. find (\<lambda>e. id' e = editId) (editHistory s) = Some entry \<longrightarrow>
         lines (undoEdit editId s) =
           js_slice 0 (startIndex entry) (lines s) @ originalLines entry
             @ js_slice_from (startIndex entry + int (length (newLines entry))) (lines s)
         \<and> (0 \<le> startIndex entry \<longrightarrow>
              lines (undoEdit editId s) =
                take (nat (startIndex entry)) (lines s) @ originalLines entry
                  @ drop (nat (startIndex entry) + length (newLines entry)) (lines s))
         \<and> editHistory (undoEdit editId s) = filter (\<lambda>e. id' e \<noteq> editId) (editHistory s)
         \<and> entry \<notin> set (editHistory (undoEdit editId s))
         \<and> selection (undoEdit editId s) = selection s
         \<and> error (undoEdit editId s) = error s
         \<and> characters (undoEdit editId s) = characters s
         \<and> scenes (undoEdit editId s) = scenes s
         \<and> fileFormat (undoEdit editId s) = fileFormat s
         \<and> isLoading (undoEdit editId s) = isLoading s)"
proof (intro conjI allI impI)
  assume "\<forall>e \<in> set (editHistory s). id' e \<noteq> editId"
  then show "undoEdit editId s = s" by (rule undoEdit_absent)
next
  fix entry
  assume f: "find (\<lambda>e. id' e = editId) (editHistory s) = Some entry"
  note u = undoEdit_present [OF f]
  show l: "lines (undoEdit editId s) =
           js_slice 0 (startIndex entry) (lines s) @ originalLines entry
             @ js_slice_from (startIndex entry + int (length (newLines entry))) (lines s)"
    by (simp add: u)
  show "editHistory (undoEdit editId s) = filter (\<lambda>e. id' e \<noteq> editId) (editHistory s)"
    by (simp add: u)
  from f have "id' entry = editId" by (auto simp: find_Some_iff)
  then show "entry \<notin> set (editHistory (undoEdit editId s))" by (simp add: u)
  show "selection (undoEdit editId s) = selection s" by (simp add: u)
  show "error (undoEdit editId s) = error s" by (simp add: u)
  show "characters (undoEdit editId s) = characters s" by (simp add: u)
  show "scenes (undoEdit editId s) = scenes s" by (simp add: u)
  show "fileFormat (undoEdit editId s) = fileFormat s" by (simp add: u)
  show "isLoading (undoEdit editId s) = isLoading s" by (simp add: u)
  assume nn: "0 \<le> startIndex entry"
  then have "0 \<le> startIndex entry + int (length (newLines entry))" by simp
  then have "js_slice_from (startIndex entry + int (length (newLines entry))) (lines s)
        = drop (nat (startIndex entry + int (length (newLines entry)))) (lines s)"
    by (rule js_slice_from_nonneg)
  moreover have "nat (startIndex entry + int (length (newLines entry)))
        = nat (startIndex entry) + length (newLines entry)"
    using nn by (simp add: nat_add_distrib)
  ultimately show "lines (undoEdit editId s) =
                take (nat (startIndex entry)) (lines s) @ originalLines entry
                  @ drop (nat (startIndex entry) + length (newLines entry)) (lines s)"
    using nn by (simp add: l js_slice_prefix)
qed


theorem undoEdit_postcondition_witness:
  "''edit-2'' \<notin> set (map id' (editHistory editedDoc))
   \<and> undoEdit ''edit-2'' editedDoc = editedDoc
   \<and> find (\<lambda>e. id' e = ''edit-1'') (editHistory editedDoc)
       = Some (editEntry ''edit-1'' 7 2 2 exampleText None exampleDoc)
   \<and> 0 \<le> startIndex (editEntry ''edit-1'' 7 2 2 exampleText None exampleDoc)
   \<and> editHistory (undoEdit ''edit-1'' editedDoc) = []
   \<and> lines (undoEdit ''edit-1'' editedDoc) =
        take 2 (lines editedDoc) @ [lines exampleDoc ! 2]
          @ drop (2 + length (newLineObjects exampleText)) (lines editedDoc)"
proof -
  let ?e = "editEntry ''edit-1'' 7 2 2 exampleText None exampleDoc"
  have a: "\<forall>e \<in> set (editHistory editedDoc). id' e \<noteq> ''edit-2''"
    by (simp add: editedDoc_history editEntry_fields)
  have f: "find (\<lambda>e. id' e = ''edit-1'') (editHistory editedDoc) = Some ?e"
    by (simp add: editedDoc_history editEntry_fields)
  have nn: "0 \<le> startIndex ?e" by (simp add: editEntry_fields)
  have o: "originalLines ?e = [lines exampleDoc ! 2]"
    by (simp add: editEntry_fields js_slice_def exampleDoc_def initialState_def)
  from undoEdit_postcondition [of editedDoc "''edit-2''"] a
  have 1: "undoEdit ''edit-2'' editedDoc = editedDoc" by blast
  from undoEdit_postcondition [of editedDoc "''edit-1''"] f nn
  have 2: "lines (undoEdit ''edit-1'' editedDoc) =
             take (nat (startIndex ?e)) (lines editedDoc) @ originalLines ?e
               @ drop (nat (startIndex ?e) + length (newLines ?e)) (lines editedDoc)"
    and 3: "editHistory (undoEdit ''edit-1'' editedDoc)
              = filter (\<lambda>e. id' e \<noteq> ''edit-1'') (editHistory editedDoc)"
    by blast+
  from 3 have 4: "editHistory (undoEdit ''edit-1'' editedDoc) = []"
    by (simp add: editedDoc_history editEntry_fields)
  from 2 o have 5: "lines (undoEdit ''edit-1'' editedDoc) =
        take 2 (lines editedDoc) @ [lines exampleDoc ! 2]
          @ drop (2 + length (newLineObjects exampleText)) (lines editedDoc)"
    by (simp add: editEntry_fields)
  have a': "''edit-2'' \<notin> set (map id' (editHistory editedDoc))"
    by (simp add: editedDoc_history editEntry_fields)
  from a' 1 f nn 4 5 show ?thesis by blast
qed

section \<open>The line count after a replacement\<close>

text \<open>
  Claim C3. For every range with \<open>0 \<le> start \<le> end < len(lines)\<close> and every text,
  \<open>replaceLines\<close> changes the number of lines by the number of lines the classifier
  produces minus \<open>end - start + 1\<close>, and the classifier produces one line for each segment
  of the text, split at newlines, that is not empty after trimming.
\<close>

theorem replaceLines_line_count:
  assumes "0 \<le> startIdx" "startIdx \<le> endIdx" "endIdx < int (length (lines s))"
  shows "int (length (lines (replaceLines newId now startIdx endIdx newContent promptArg s)))
           = int (length (lines s))
               + (int (length (newLineObjects newContent)) - (endIdx - startIdx + 1))
         \<and> length (newLineObjects newContent)
             = length (filter (\<lambda>seg. trim seg \<noteq> []) (splitOn (CHR 0x0A) newContent))"
proof
  have "lines (replaceLines newId now startIdx endIdx newContent promptArg s) =
           take (nat startIdx) (lines s) @ newLineObjects newContent
             @ drop (nat endIdx + 1) (lines s)"
    using assms by (rule replaceLines_lines_valid)
  then show "int (length (lines (replaceLines newId now startIdx endIdx newContent promptArg s)))
           = int (length (lines s))
               + (int (length (newLineObjects newContent)) - (endIdx - startIdx + 1))"
    using assms by (simp add: min_def)
  show "length (newLineObjects newContent)
             = length (filter (\<lambda>seg. trim seg \<noteq> []) (splitOn (CHR 0x0A) newContent))"
    by (simp add: newLineObjects_def contentLines_def length_classifyFrom)
qed

theorem replaceLines_line_count_witness:
  "(0::int) \<le> 2 \<and> (2::int) \<le> 2 \<and> 2 < int (length (lines exampleDoc))
   \<and> int (length (lines (replaceLines ''edit-1'' 7 2 2 exampleText None exampleDoc)))
       = 4 + (int (length (newLineObjects exampleText)) - 1)"
  using replaceLines_line_count [of 2 2 exampleDoc "''edit-1''" 7 exampleText None]
  by (simp add: exampleDoc_def initialState_def)

section \<open>The bound on the history\<close>

text \<open>
  Claim C4. A history of at most 50 entries has at most 50 entries after every operation
  of the store. \<open>replaceLines\<close> puts its entry in front of the history and keeps the first
  50 entries. After 60 calls of \<open>replaceLines\<close> in a row, from a state with an empty
  history, the history has 50 entries, and they are the entries that the last 50 calls
  created, the most recent first.
\<close>

theorem history_bounded:
  "(length (editHistory s) \<le> 50 \<longrightarrow>
       length (editHistory (setScript ls cs scs ff s)) \<le> 50
     \<and> length (editHistory (clearScript s)) \<le> 50
     \<and> length (editHistory (setSelection t i j s)) \<le> 50
     \<and> length (editHistory (clearSelection s)) \<le> 50
     \<and> length (editHistory (updateLine index txt s)) \<le> 50
     \<and> length (editHistory (replaceLines newId now startIdx endIdx newContent promptArg s)) \<le> 50
     \<and> length (editHistory (undoEdit editId s)) \<le> 50
     \<and> length (editHistory (clearHistory s)) \<le> 50
     \<and> length (editHistory (setLoading b s)) \<le> 50
     \<and> length (editHistory (setError e s)) \<le> 50)
   \<and> editHistory (replaceLines newId now startIdx endIdx newContent promptArg s)
       = take 50 (editEntry newId now startIdx endIdx newContent promptArg s # editHistory s)
   \<and> (editHistory s = [] \<and> length calls = 60 \<longrightarrow>
         length (editHistory (replaceAll calls s)) = 50
       \<and> editHistory (replaceAll calls s) = rev (drop 10 (createdEntries calls s)))"
proof (intro conjI impI)
  show "editHistory (replaceLines newId now startIdx endIdx newContent promptArg s)
       = take 50 (editEntry newId now startIdx endIdx newContent promptArg s # editHistory s)"
    by (rule replaceLines_history)
  show "length (editHistory (replaceLines newId now startIdx endIdx newContent promptArg s)) \<le> 50"
    by (simp add: replaceLines_history)
  show "length (editHistory (setScript ls cs scs ff s)) \<le> 50" by (simp add: setScript_def)
  show "length (editHistory (clearScript s)) \<le> 50" by (simp add: clearScript_def)
  show "length (editHistory (clearHistory s)) \<le> 50" by (simp add: clearHistory_def)
next
  assume b: "length (editHistory s) \<le> 50"
  then show "length (editHistory (setSelection t i j s)) \<le> 50" by (simp add: setSelection_def)
  from b show "length (editHistory (clearSelection s)) \<le> 50" by (simp add: clearSelection_def)
  from b show "length (editHistory (updateLine index txt s)) \<le> 50"
    by (simp add: updateLine_def Let_def)
  from b undoEdit_history_length [of editId s]
  show "length (editHistory (undoEdit editId s)) \<le> 50" by simp
  from b show "length (editHistory (setLoading b s)) \<le> 50" by (simp add: setLoading_def)
  from b show "length (editHistory (setError e s)) \<le> 50" by (simp add: setError_def)
next
  assume a: "editHistory s = [] \<and> length calls = 60"
  then have h: "editHistory (replaceAll calls s) = take 50 (rev (createdEntries calls s))"
    by (simp add: replaceAll_history)
  from a have l: "length (createdEntries calls s) = 60" by (simp add: length_createdEntries)
  from h l show "length (editHistory (replaceAll calls s)) = 50" by simp
  from h l show "editHistory (replaceAll calls s) = rev (drop 10 (createdEntries calls s))"
    by (simp add: take_rev)
qed

theorem history_bounded_witness:
  "length (editHistory exampleDoc) \<le> 50
   \<and> length (editHistory (undoEdit ''edit-1'' exampleDoc)) \<le> 50
   \<and> editHistory exampleDoc = [] \<and> length (map sampleCall [0 ..< 60]) = 60
   \<and> length (editHistory (replaceAll (map sampleCall [0 ..< 60]) exampleDoc)) = 50
   \<and> editHistory (replaceAll (map sampleCall [0 ..< 60]) exampleDoc)
       = rev (drop 10 (createdEntries (map sampleCall [0 ..< 60]) exampleDoc))"
proof -
  have a: "length (editHistory exampleDoc) \<le> 50" and b: "editHistory exampleDoc = []"
    by (simp_all add: exampleDoc_def initialState_def)
  have c: "length (map sampleCall [0 ..< 60]) = 60" by simp
  from history_bounded [where s = exampleDoc and editId = "''edit-1''"
      and calls = "map sampleCall [0 ..< 60]"] a b c
  show ?thesis by blast
qed

section \<open>Replacement with indices out of range\<close>




section \<open>Loading a script\<close>

text \<open>
  Claim C6 says that after \<open>setScript(lines, characters, scenes, format)\<close> the stored
  lines, characters, scenes and format are the arguments, the history is empty, the error is
  cleared and the selection is reset to none. The code does all of this but the last:
  \<open>setScript\<close> leaves the selection as it is. On the example document with the selection
  \<open>("JOHN", 1, 1)\<close>, \<open>setScript([], [], [], null)\<close> keeps that selection, while
  \<open>clearScript\<close> on the same state sets it to none.
\<close>

theorem setScript_keeps_selection:
  "lines (setScript ls cs scs ff s) = ls
   \<and> characters (setScript ls cs scs ff s) = cs
   \<and> scenes (setScript ls cs scs ff s) = scs
   \<and> fileFormat (setScript ls cs scs ff s) = ff
   \<and> editHistory (setScript ls cs scs ff s) = []
   \<and> error (setScript ls cs scs ff s) = None
   \<and> selection (setScript ls cs scs ff s) = selection s
   \<and> selection (setScript [] [] [] None (setSelection ''JOHN'' 1 1 exampleDoc))
       = Some \<lparr>sel_text = ''JOHN'', sel_startIndex = 1, sel_endIndex = 1\<rparr>
   \<and> selection (setScript [] [] [] None (setSelection ''JOHN'' 1 1 exampleDoc)) \<noteq> None
   \<and> selection (clearScript (setSelection ''JOHN'' 1 1 exampleDoc)) = None"
  by (simp add: setScript_def setSelection_def clearScript_def)

section \<open>The classifier on the kitchen example\<close>

text \<open>
  Claim C7. On the text \<open>"INT. KITCHEN - DAY\nJOHN\n(whispering)\nWe need to leave now."\<close>,
  with no previous type, the classifier produces exactly four lines, of the types heading,
  character, parenthetical and dialogue, in this order.
\<close>

theorem classifier_example:
  "map type (newLineObjects (''INT. KITCHEN - DAY'' @ [CHR 0x0A] @ ''JOHN'' @ [CHR 0x0A]
      @ ''(whispering)'' @ [CHR 0x0A] @ ''We need to leave now.''))
     = [Heading, Character, Parenthetical, Dialogue]"
  by code_simp

section \<open>The replace and undo example\<close>

text \<open>
  Claim C8, as stated, says that replacing the dialogue line at index 2 with
  \<open>"Fine. Let's go.\nCUT TO:\nEXT. STREET - NIGHT"\<close> yields three lines of the types
  dialogue, action or heading, heading. On the example document the three new lines have
  neither of these two type sequences.
\<close>

theorem replace_example_counterexample:
  "\<not> (map type (take 3 (drop 2 (lines (replaceLines ''edit-1'' 7 2 2 exampleText None exampleDoc))))
        = [Dialogue, Action, Heading]
      \<or> map type (take 3 (drop 2 (lines (replaceLines ''edit-1'' 7 2 2 exampleText None exampleDoc))))
        = [Dialogue, Heading, Heading])"
  by (simp add: replaceLines_def js_slice_def js_slice_from_def exampleDoc_lines exampleText_lines)

text \<open>
  Claim C8, amended. On every document with a line at index 2 (a single dialogue line in
  the example), \<open>replaceLines(2, 2, "Fine. Let's go.\nCUT TO:\nEXT. STREET - NIGHT")\<close> puts
  three new lines in its place whose types are action, character and heading, in this
  order, and \<open>undoEdit\<close> on the entry that this call created restores the line sequence,
  so the original line is back at index 2.
\<close>

theorem replace_example:
  assumes "2 < length (lines s)"
  shows "lines (replaceLines newId now 2 2 exampleText promptArg s)
           = take 2 (lines s)
               @ [\<lparr>type = Action, content = ''Fine. Let's go.'', original_text = ''Fine. Let's go.''\<rparr>,
                  \<lparr>type = Character, content = ''CUT TO:'', original_text = ''CUT TO:''\<rparr>,
                  \<lparr>type = Heading, content = ''EXT. STREET - NIGHT'',
                    original_text = ''EXT. STREET - NIGHT''\<rparr>]
               @ drop 3 (lines s)
         \<and> lines (undoEdit newId (replaceLines newId now 2 2 exampleText promptArg s)) = lines s
         \<and> lines (undoEdit newId (replaceLines newId now 2 2 exampleText promptArg s)) ! 2
             = lines s ! 2"
proof -
  from assms have v: "(0::int) \<le> 2" "(2::int) \<le> 2" "2 < int (length (lines s))" by simp_all
  from replaceLines_lines_valid [OF v]
  have "lines (replaceLines newId now 2 2 exampleText promptArg s)
          = take 2 (lines s) @ newLineObjects exampleText @ drop 3 (lines s)"
    by (simp add: numeral_3_eq_3)
  moreover from undo_after_replace [OF v]
  have "lines (undoEdit newId (replaceLines newId now 2 2 exampleText promptArg s)) = lines s" .
  ultimately show ?thesis by (simp add: exampleText_lines)
qed

theorem replace_example_witness:
  "2 < length (lines exampleDoc)
   \<and> type (lines exampleDoc ! 2) = Dialogue
   \<and> map type (lines (replaceLines ''edit-1'' 7 2 2 exampleText None exampleDoc))
       = [Heading, Character, Action, Character, Heading, Action]
   \<and> lines (undoEdit ''edit-1'' (replaceLines ''edit-1'' 7 2 2 exampleText None exampleDoc)) ! 2
       = \<lparr>type = Dialogue, content = ''We need to leave now.'',
          original_text = ''  We need to leave now.''\<rparr>"
  using replace_example [of exampleDoc "''edit-1''" 7 None]
  by (simp add: exampleDoc_lines)

section \<open>The first segment of a replacement\<close>

text \<open>
  Claim C9. In every call of \<open>replaceLines\<close> the rolling previous type of the classifier
  starts as none: the new lines are the classification of the segments from no previous
  type, the same for every state of the store, and they are what the call puts into the
  document at \<open>startIndex\<close>. So the first segment that is not blank is never classified as
  dialogue: its type is heading, parenthetical, character or action.
\<close>

theorem first_segment_never_dialogue:
  "newLines (editEntry newId now startIdx endIdx newContent promptArg s)
     = classifyFrom None (contentLines newContent)
   \<and> newLines (editEntry newId now startIdx endIdx newContent promptArg s)
     = newLines (editEntry newId now startIdx endIdx newContent promptArg s')
   \<and> (0 \<le> startIdx \<and> startIdx \<le> int (length (lines s)) \<longrightarrow>
        take (length (newLineObjects newContent))
          (drop (nat startIdx) (lines (replaceLines newId now startIdx endIdx newContent promptArg s)))
        = classifyFrom None (contentLines newContent))
   \<and> (\<forall>seg segs. contentLines newContent = seg # segs \<longrightarrow>
          type (hd (newLineObjects newContent)) = detectType seg None
        \<and> type (hd (newLineObjects newContent)) \<noteq> Dialogue
        \<and> type (hd (newLineObjects newContent)) \<in> {Heading, Parenthetical, Character, Action})"
proof (intro conjI allI impI)
  show "newLines (editEntry newId now startIdx endIdx newContent promptArg s)
     = classifyFrom None (contentLines newContent)"
    by (simp add: editEntry_fields newLineObjects_def)
  show "newLines (editEntry newId now startIdx endIdx newContent promptArg s)
     = newLines (editEntry newId now startIdx endIdx newContent promptArg s')"
    by (simp add: editEntry_fields)
next
  assume a: "0 \<le> startIdx \<and> startIdx \<le> int (length (lines s))"
  then have "js_slice 0 startIdx (lines s) = take (nat startIdx) (lines s)"
    by (simp add: js_slice_prefix)
  moreover from a have "nat startIdx \<le> length (lines s)" by linarith
  then have "length (take (nat startIdx) (lines s)) = nat startIdx" by simp
  ultimately show "take (length (newLineObjects newContent))
          (drop (nat startIdx) (lines (replaceLines newId now startIdx endIdx newContent promptArg s)))
        = classifyFrom None (contentLines newContent)"
    by (simp add: replaceLines_def newLineObjects_def)
next
  fix seg segs
  assume c: "contentLines newContent = seg # segs"
  then show t: "type (hd (newLineObjects newContent)) = detectType seg None"
    by (simp add: newLineObjects_def Let_def)
  show "type (hd (newLineObjects newContent)) \<noteq> Dialogue"
    by (simp only: t detectType_None) simp
  show "type (hd (newLineObjects newContent)) \<in> {Heading, Parenthetical, Character, Action}"
    by (simp only: t detectType_None)
qed

theorem first_segment_never_dialogue_witness:
  "0 \<le> (2::int) \<and> (2::int) \<le> int (length (lines exampleDoc))
   \<and> type (lines exampleDoc ! 1) = Character
   \<and> contentLines ''We need to leave now.'' = [''We need to leave now.'']
   \<and> type (hd (newLineObjects ''We need to leave now.'')) \<noteq> Dialogue
   \<and> take (length (newLineObjects ''We need to leave now.''))
        (drop 2 (lines (replaceLines ''edit-1'' 7 2 2 ''We need to leave now.'' None exampleDoc)))
       = classifyFrom None (contentLines ''We need to leave now.'')"
proof -
  have a: "0 \<le> (2::int) \<and> (2::int) \<le> int (length (lines exampleDoc))"
    and b: "type (lines exampleDoc ! 1) = Character"
    by (simp_all add: exampleDoc_lines)
  note c = reply_segments
  from first_segment_never_dialogue
    [of "''edit-1''" 7 2 2 "''We need to leave now.''" None exampleDoc exampleDoc] a c
  have "type (hd (newLineObjects ''We need to leave now.'')) \<noteq> Dialogue"
    and "take (length (newLineObjects ''We need to leave now.''))
        (drop (nat 2) (lines (replaceLines ''edit-1'' 7 2 2 ''We need to leave now.'' None exampleDoc)))
       = classifyFrom None (contentLines ''We need to leave now.'')"
    by blast+
  with a b c show ?thesis by simp
qed

section \<open>Updating one line\<close>

text \<open>
  Claim C10, as stated, says that for every index \<open>updateLine(index, newContent)\<close> replaces
  only the \<open>content\<close> field of the line at that index. The four-line example document has
  no line at index 6, and \<open>updateLine(6, "MARY")\<close> does not leave the lines as they are
  either: the array grows to seven slots, two holes and an object that has a \<open>content\<close>
  but neither a \<open>type\<close> nor an \<open>original_text\<close>.
\<close>

theorem updateLine_out_of_range_counterexample:
  "\<not> (6 < int (length (lines exampleDoc)))
   \<and> lines (updateLine 6 ''MARY'' exampleDoc)
       = map Line (lines exampleDoc) @ [Hole, Hole, ContentOnly ''MARY'']
   \<and> length (lines (updateLine 6 ''MARY'' exampleDoc)) \<noteq> length (lines exampleDoc)
   \<and> lines (updateLine 6 ''MARY'' exampleDoc) ! 6 = ContentOnly ''MARY''"
  by (simp add: updateLine_def Let_def exampleDoc_lines numeral_2_eq_2)

text \<open>
  Claim C10, amended. For every index, \<open>updateLine(index, newContent)\<close> pushes no history
  entry and leaves the history, the selection, the error and every other field but \<open>lines\<close>
  as they are, and every line at another index is unchanged. At an index inside the array
  only the \<open>content\<close> of that line is replaced: its \<open>type\<close> and its \<open>original_text\<close>
  stay, and nothing is classified again. At an index from the length of the array on, below
  \<open>2^32 - 1\<close>, no line is replaced: the array keeps its lines and grows to \<open>index + 1\<close>
  slots, holes up to the index and at the index an object with the \<open>content\<close> alone. At
  any other index no element of the array changes.
\<close>

theorem updateLine_frame:
  "editHistory (updateLine index txt s) = editHistory s
   \<and> selection (updateLine index txt s) = selection s
   \<and> error (updateLine index txt s) = error s
   \<and> characters (updateLine index txt s) = characters s
   \<and> scenes (updateLine index txt s) = scenes s
   \<and> fileFormat (updateLine index txt s) = fileFormat s
   \<and> isLoading (updateLine index txt s) = isLoading s
   \<and> (\<forall>j < length (lines s). int j \<noteq> index \<longrightarrow>
         lines (updateLine index txt s) ! j = Line (lines s ! j))
   \<and> (0 \<le> index \<and> index < int (length (lines s)) \<longrightarrow>
         lines (updateLine index txt s) =
           map Line ((lines s)[nat index :=
             \<lparr>type = type (lines s ! nat index), content = txt,
              original_text = original_text (lines s ! nat index)\<rparr>]))
   \<and> (int (length (lines s)) \<le> index \<and> index < 4294967295 \<longrightarrow>
         lines (updateLine index txt s) =
           map Line (lines s) @ replicate (nat (index - int (length (lines s)))) Hole
             @ [ContentOnly txt])
   \<and> (index < 0 \<or> (int (length (lines s)) \<le> index \<and> 4294967295 \<le> index) \<longrightarrow>
         lines (updateLine index txt s) = map Line (lines s))"
proof (intro conjI allI impI)
  show "editHistory (updateLine index txt s) = editHistory s"
    and "selection (updateLine index txt s) = selection s"
    and "error (updateLine index txt s) = error s"
    and "characters (updateLine index txt s) = characters s"
    and "scenes (updateLine index txt s) = scenes s"
    and "fileFormat (updateLine index txt s) = fileFormat s"
    and "isLoading (updateLine index txt s) = isLoading s"
    by (simp_all add: updateLine_def Let_def)
next
  fix j
  assume "j < length (lines s)" and "int j \<noteq> index"
  then show "lines (updateLine index txt s) ! j = Line (lines s ! j)"
    by (auto simp add: updateLine_def Let_def nth_append)
next
  assume "0 \<le> index \<and> index < int (length (lines s))"
  then show "lines (updateLine index txt s) =
           map Line ((lines s)[nat index :=
             \<lparr>type = type (lines s ! nat index), content = txt,
              original_text = original_text (lines s ! nat index)\<rparr>])"
    by (simp add: updateLine_def Let_def map_update content_update)
next
  assume "int (length (lines s)) \<le> index \<and> index < 4294967295"
  then show "lines (updateLine index txt s) =
           map Line (lines s) @ replicate (nat (index - int (length (lines s)))) Hole
             @ [ContentOnly txt]"
    by (simp add: updateLine_def Let_def)
next
  assume "index < 0 \<or> (int (length (lines s)) \<le> index \<and> 4294967295 \<le> index)"
  then show "lines (updateLine index txt s) = map Line (lines s)"
    by (auto simp add: updateLine_def Let_def)
qed

theorem updateLine_frame_witness:
  "0 \<le> (1::int) \<and> (1::int) < int (length (lines exampleDoc))
   \<and> (0::nat) < length (lines exampleDoc) \<and> int 0 \<noteq> 1
   \<and> lines (updateLine 1 ''MARY'' exampleDoc) ! 0 = Line (lines exampleDoc ! 0)
   \<and> lines (updateLine 1 ''MARY'' exampleDoc) ! 1
       = Line \<lparr>type = Character, content = ''MARY'', original_text = ''JOHN''\<rparr>
   \<and> editHistory (updateLine 1 ''MARY'' exampleDoc) = []
   \<and> int (length (lines exampleDoc)) \<le> 5 \<and> (5::int) < 4294967295
   \<and> lines (updateLine 5 ''MARY'' exampleDoc)
       = map Line (lines exampleDoc) @ [Hole, ContentOnly ''MARY'']
   \<and> (- 1::int) < 0
   \<and> lines (updateLine (- 1) ''MARY'' exampleDoc) = map Line (lines exampleDoc)"
proof -
  have len: "length (lines exampleDoc) = 4" by (simp add: exampleDoc_lines)
  have h: "editHistory exampleDoc = []" by (simp add: exampleDoc_def initialState_def)
  from updateLine_frame [of 1 "''MARY''" exampleDoc] len h
  have a: "lines (updateLine 1 ''MARY'' exampleDoc) ! 0 = Line (lines exampleDoc ! 0)"
    and b: "lines (updateLine 1 ''MARY'' exampleDoc) ! 1
       = Line \<lparr>type = Character, content = ''MARY'', original_text = ''JOHN''\<rparr>"
    and c: "editHistory (updateLine 1 ''MARY'' exampleDoc) = []"
    by (simp_all add: exampleDoc_lines)
  from updateLine_frame [of 5 "''MARY''" exampleDoc] len
  have d: "lines (updateLine 5 ''MARY'' exampleDoc)
       = map Line (lines exampleDoc) @ [Hole, ContentOnly ''MARY'']"
    by simp
  from updateLine_frame [of "- 1" "''MARY''" exampleDoc]
  have e: "lines (updateLine (- 1) ''MARY'' exampleDoc) = map Line (lines exampleDoc)"
    by simp
  from a b c d e len show ?thesis by simp
qed

end
